theory Spec2Isabelle
  imports Complex_Main
begin

section \<open>JavaScript values as the extension sees them\<close>

text \<open>
  The extension (\<^verbatim>\<open>src/extensions/index.ts\<close>) reads two JSON files and the JSON bodies
  of HTTP responses, and works on what \<^verbatim>\<open>JSON.parse\<close> gives it without checking any
  type. The model therefore keeps every value dynamic, as the running code has it.

  \<^item> \<open>json\<close> is a value produced by \<^verbatim>\<open>JSON.parse\<close>. An object is the list of its
    own properties in insertion order; \<^verbatim>\<open>JSON.parse\<close> yields distinct keys.
  \<^item> \<open>json option\<close> is the result of a property read: \<open>None\<close> is \<^verbatim>\<open>undefined\<close>.
  \<^item> \<open>number\<close> is a JavaScript number: a finite value, \<^verbatim>\<open>NaN\<close> or an infinity.
    Finite values are exact rationals: the rounding of IEEE doubles and the sign of zero
    are not modelled, and a JSON numeral is taken to be finite.
\<close>

datatype json =
    JNull
  | JBool bool
  | JNum rat
  | JStr string
  | JArr "json list"
  | JObj "(string \<times> json) list"

datatype number = NaN | NegInf | Num rat | PosInf

text \<open>
  What the code throws. \<open>Error m\<close> is \<^verbatim>\<open>new Error(m)\<close>; \<open>TypeError\<close> is a property
  access on \<^verbatim>\<open>null\<close> or \<^verbatim>\<open>undefined\<close> (or, in strict mode, an assignment to a
  property of a primitive); \<open>SyntaxError\<close> is \<^verbatim>\<open>JSON.parse\<close> or \<^verbatim>\<open>response.json()\<close>
  on a text that is not JSON; \<open>IOError\<close> is a failing \<^verbatim>\<open>node:fs\<close> call; \<open>FetchError\<close>
  is a rejected \<^verbatim>\<open>fetch\<close>.
\<close>

datatype error = TypeError | SyntaxError | IOError | FetchError | Error string

text \<open>
  The two conversions between strings and numbers are the runtime's, not the
  repository's: they are parameters of the model. \<open>strict\<close> says whether the module
  runs in strict mode (an ES module does).
\<close>

record js_runtime =
  number_to_string :: "rat \<Rightarrow> string"
  string_to_number :: "string \<Rightarrow> number"
  strict :: bool

text \<open>Sequencing of computations that may throw: \<open>Inl\<close> is the exception.\<close>

definition and_then :: "error + 'a \<Rightarrow> ('a \<Rightarrow> error + 'b) \<Rightarrow> error + 'b" where
  "and_then m f = (case m of Inl e \<Rightarrow> Inl e | Inr v \<Rightarrow> f v)"

text \<open>\<^verbatim>\<open>try { body } catch { handler }\<close>.\<close>

definition try_catch :: "error + 'a \<Rightarrow> (error \<Rightarrow> error + 'a) \<Rightarrow> error + 'a" where
  "try_catch body handler = (case body of Inl e \<Rightarrow> handler e | Inr v \<Rightarrow> Inr v)"

text \<open>Truthiness (\<^verbatim>\<open>ToBoolean\<close>) of a value read from JSON.\<close>

fun truthy :: "json option \<Rightarrow> bool" where
  "truthy None = False"
| "truthy (Some JNull) = False"
| "truthy (Some (JBool b)) = b"
| "truthy (Some (JNum n)) = (n \<noteq> 0)"
| "truthy (Some (JStr s)) = (s \<noteq> [])"
| "truthy (Some (JArr xs)) = True"
| "truthy (Some (JObj al)) = True"

text \<open>
  The property read \<^verbatim>\<open>v.k\<close> (or \<^verbatim>\<open>v[k]\<close>), for the property names this program
  reads (\<^verbatim>\<open>access_token\<close>, \<^verbatim>\<open>expires_at\<close>, \<^verbatim>\<open>error\<close>, \<^verbatim>\<open>kimi-coder\<close>, ...): none of
  them is a property of a string, number, boolean or array, or of \<^verbatim>\<open>Object.prototype\<close>.
\<close>

fun get :: "json option \<Rightarrow> string \<Rightarrow> error + json option" where
  "get None k = Inl TypeError"
| "get (Some JNull) k = Inl TypeError"
| "get (Some (JObj al)) k = Inr (map_of al k)"
| "get (Some v) k = Inr None"

text \<open>\<^verbatim>\<open>a || b\<close> with a JSON default \<open>b\<close>.\<close>

definition js_or :: "json option \<Rightarrow> json \<Rightarrow> json" where
  "js_or a b = (case a of None \<Rightarrow> b | Some v \<Rightarrow> if truthy a then v else b)"

text \<open>
  \<^verbatim>\<open>String(v)\<close>. An array is joined with commas, \<^verbatim>\<open>null\<close> elements giving the
  empty string; a plain object is \<^verbatim>\<open>[object Object]\<close>.
\<close>

fun join :: "string list \<Rightarrow> string" where
  "join [] = []"
| "join [s] = s"
| "join (s # t # ss) = s @ '','' @ join (t # ss)"

fun js_String :: "js_runtime \<Rightarrow> json \<Rightarrow> string" where
  "js_String rt JNull = ''null''"
| "js_String rt (JBool b) = (if b then ''true'' else ''false'')"
| "js_String rt (JNum n) = number_to_string rt n"
| "js_String rt (JStr s) = s"
| "js_String rt (JArr xs) =
     join (map (\<lambda>x. if x = JNull then [] else js_String rt x) xs)"
| "js_String rt (JObj al) = ''[object Object]''"

definition js_String_opt :: "js_runtime \<Rightarrow> json option \<Rightarrow> string" where
  "js_String_opt rt a = (case a of None \<Rightarrow> ''undefined'' | Some v \<Rightarrow> js_String rt v)"

text \<open>
  \<^verbatim>\<open>ToNumber\<close>, as \<^verbatim>\<open>Number(v)\<close>, the arithmetic operators and the comparisons apply
  it. An array or object is first converted to its string.
\<close>

fun ToNumber :: "js_runtime \<Rightarrow> json option \<Rightarrow> number" where
  "ToNumber rt None = NaN"
| "ToNumber rt (Some JNull) = Num 0"
| "ToNumber rt (Some (JBool b)) = Num (if b then 1 else 0)"
| "ToNumber rt (Some (JNum n)) = Num n"
| "ToNumber rt (Some (JStr s)) = string_to_number rt s"
| "ToNumber rt (Some (JArr xs)) = string_to_number rt (js_String rt (JArr xs))"
| "ToNumber rt (Some (JObj al)) = string_to_number rt (js_String rt (JObj al))"

subsection \<open>Arithmetic and comparison of numbers\<close>

fun js_add :: "number \<Rightarrow> number \<Rightarrow> number" where
  "js_add (Num a) (Num b) = Num (a + b)"
| "js_add NaN y = NaN"
| "js_add x NaN = NaN"
| "js_add PosInf NegInf = NaN"
| "js_add NegInf PosInf = NaN"
| "js_add PosInf y = PosInf"
| "js_add NegInf y = NegInf"
| "js_add x PosInf = PosInf"
| "js_add x NegInf = NegInf"

fun js_neg :: "number \<Rightarrow> number" where
  "js_neg NaN = NaN"
| "js_neg NegInf = PosInf"
| "js_neg (Num a) = Num (- a)"
| "js_neg PosInf = NegInf"

definition js_sub :: "number \<Rightarrow> number \<Rightarrow> number" where
  "js_sub x y = js_add x (js_neg y)"

text \<open>The sign of a number that is not \<^verbatim>\<open>NaN\<close>: \<open>-1\<close>, \<open>0\<close> or \<open>1\<close>.\<close>

fun js_sign :: "number \<Rightarrow> int" where
  "js_sign NaN = 0"
| "js_sign NegInf = - 1"
| "js_sign (Num a) = (if a < 0 then - 1 else if a = 0 then 0 else 1)"
| "js_sign PosInf = 1"

definition signed_inf :: "int \<Rightarrow> number" where
  "signed_inf s = (if s = 0 then NaN else if s < 0 then NegInf else PosInf)"

fun js_mul :: "number \<Rightarrow> number \<Rightarrow> number" where
  "js_mul (Num a) (Num b) = Num (a * b)"
| "js_mul NaN y = NaN"
| "js_mul x NaN = NaN"
| "js_mul x y = signed_inf (js_sign x * js_sign y)"

text \<open>
  Division. A finite value divided by zero is an infinity of the dividend's sign (the
  zero is taken as positive), and \<open>0 / 0\<close> is \<^verbatim>\<open>NaN\<close>: HOL's \<open>x / 0 = 0\<close> is not what
  the code computes.
\<close>

fun js_div :: "number \<Rightarrow> number \<Rightarrow> number" where
  "js_div (Num a) (Num b) = (if b = 0 then signed_inf (js_sign (Num a)) else Num (a / b))"
| "js_div NaN y = NaN"
| "js_div x NaN = NaN"
| "js_div (Num a) y = Num 0"
| "js_div x (Num b) = signed_inf (js_sign x * (if b < 0 then - 1 else 1))"
| "js_div x y = NaN"

fun js_ceil :: "number \<Rightarrow> number" where
  "js_ceil (Num a) = Num (of_int \<lceil>a\<rceil>)"
| "js_ceil x = x"

text \<open>\<^verbatim>\<open>x < y\<close> on numbers: false as soon as one side is \<^verbatim>\<open>NaN\<close>.\<close>

fun js_lt :: "number \<Rightarrow> number \<Rightarrow> bool" where
  "js_lt (Num a) (Num b) = (a < b)"
| "js_lt NaN y = False"
| "js_lt x NaN = False"
| "js_lt NegInf NegInf = False"
| "js_lt NegInf y = True"
| "js_lt x NegInf = False"
| "js_lt PosInf y = False"
| "js_lt x PosInf = True"

definition js_gt :: "number \<Rightarrow> number \<Rightarrow> bool" where
  "js_gt x y = js_lt y x"

text \<open>Truthiness of a number, and of a \<^verbatim>\<open>number | null\<close>.\<close>

fun truthy_num :: "number \<Rightarrow> bool" where
  "truthy_num NaN = False"
| "truthy_num (Num a) = (a \<noteq> 0)"
| "truthy_num x = True"

text \<open>
  \<^verbatim>\<open>JSON.stringify\<close> of a number: \<^verbatim>\<open>NaN\<close> and the infinities are written as
  \<^verbatim>\<open>null\<close>.
\<close>

fun number_json :: "number \<Rightarrow> json" where
  "number_json (Num a) = JNum a"
| "number_json x = JNull"

text \<open>\<^verbatim>\<open>Date.now() / 1000\<close> for a clock reading in milliseconds.\<close>

definition seconds :: "int \<Rightarrow> number" where
  "seconds now = Num (of_int now / 1000)"

text \<open>
  \<^verbatim>\<open>a !== b\<close> where \<open>a\<close> was just parsed from a file: primitives compare by value;
  an array or object is a fresh one, never identical to anything the caller holds.
\<close>

fun strict_neq :: "json \<Rightarrow> json \<Rightarrow> bool" where
  "strict_neq JNull JNull = False"
| "strict_neq (JBool p) (JBool q) = (p \<noteq> q)"
| "strict_neq (JNum x) (JNum y) = (x \<noteq> y)"
| "strict_neq (JStr s) (JStr t) = (s \<noteq> t)"
| "strict_neq a b = True"

section \<open>The companion credential file (TokenStore)\<close>

text \<open>
  A file is modelled by what reading and parsing it gives: it is absent
  (\<^verbatim>\<open>fs.existsSync\<close> is false), present but \<^verbatim>\<open>fs.readFileSync\<close> throws, readable with a
  text that \<^verbatim>\<open>JSON.parse\<close> rejects, or readable with a text that parses to a value.
  Writing \<^verbatim>\<open>JSON.stringify(v)\<close> leaves a file that parses to \<open>v\<close>.
\<close>

datatype store_file = Missing | Unreadable | Malformed | Content json

text \<open>
  The body of the \<^verbatim>\<open>try\<close> block of \<^verbatim>\<open>loadKimiCliToken\<close>. The result \<open>None\<close> is
  \<^verbatim>\<open>null\<close>; \<open>Some data\<close> is the parsed value itself (\<^verbatim>\<open>data as KimiToken\<close> converts
  nothing).
\<close>

definition loadKimiCliToken_body :: "store_file \<Rightarrow> error + json option" where
  "loadKimiCliToken_body f =
     (case f of
        Missing \<Rightarrow> Inr None
      | Unreadable \<Rightarrow> Inl IOError
      | Malformed \<Rightarrow> Inl SyntaxError
      | Content data \<Rightarrow>
          and_then (get (Some data) ''access_token'') (\<lambda>a.
            if truthy a then
              and_then (get (Some data) ''refresh_token'') (\<lambda>r.
                if truthy r then Inr (Some data) else Inr None)
            else Inr None))"

definition loadKimiCliToken :: "store_file \<Rightarrow> error + json option" where
  "loadKimiCliToken f = try_catch (loadKimiCliToken_body f) (\<lambda>e. Inr None)"

text \<open>The own property \<open>k\<close> of a parsed value, \<open>None\<close> when it has none.\<close>

definition field :: "json \<Rightarrow> string \<Rightarrow> json option" where
  "field v k = (case v of JObj al \<Rightarrow> map_of al k | _ \<Rightarrow> None)"

section \<open>The broker's credential file (BrokerStore)\<close>

text \<open>
  The part of the machine the reconciler reads and writes: the companion credential file
  (\<^verbatim>\<open>~/.kimi/credentials/kimi-code.json\<close>), the broker's file
  (\<^verbatim>\<open>~/.pi/agent/auth.json\<close>), and for each whether \<^verbatim>\<open>fs.mkdirSync\<close> and
  \<^verbatim>\<open>fs.writeFileSync\<close> succeed on it. A write that fails leaves the file as it was.
\<close>

record world =
  kimi_file :: store_file
  kimi_writable :: bool
  pi_file :: store_file
  pi_writable :: bool












text \<open>
  A runtime for evaluating closed examples. None of the examples converts a number to a
  string or a string to a number.
\<close>

definition example_runtime :: js_runtime where
  "example_runtime =
     \<lparr>number_to_string = (\<lambda>n. ''0''), string_to_number = (\<lambda>s. NaN), strict = True\<rparr>"





section \<open>The OAuth device flow (DeviceFlowClient)\<close>

text \<open>
  A token as \<^verbatim>\<open>pollForToken\<close> and \<^verbatim>\<open>refreshAccessToken\<close> build it: every field is the
  result of \<^verbatim>\<open>String(...)\<close> or of an addition of numbers.
\<close>

record KimiToken =
  access_token :: string
  refresh_token :: string
  expires_at :: number
  scope :: string
  token_type :: string

record DeviceAuthorization =
  user_code :: string
  device_code :: string
  verification_uri :: string
  verification_uri_complete :: string
  expires_in :: "number option"
  interval :: number

text \<open>
  The outcome of one \<^verbatim>\<open>fetch\<close> followed by \<^verbatim>\<open>response.json()\<close>: the request is
  rejected, or a response arrives with its status and its body, \<open>None\<close> when the body
  is not JSON.
\<close>

datatype fetch_result = FetchFailed | Response nat "json option"

text \<open>
  What a run does to the outside, in order: a wait of so many milliseconds
  (\<^verbatim>\<open>setTimeout\<close>), a device-code grant request carrying the device code, a
  refresh-token grant request carrying the refresh token.
\<close>

datatype effect = Sleep number | PostDeviceGrant string | PostRefreshGrant string

fun is_request :: "effect \<Rightarrow> bool" where
  "is_request (Sleep ms) = False"
| "is_request (PostDeviceGrant c) = True"
| "is_request (PostRefreshGrant c) = True"

definition requests :: "effect list \<Rightarrow> nat" where
  "requests tr = length (filter is_request tr)"

text \<open>
  Lines 201-208 of \<^verbatim>\<open>pollForToken\<close> and, word for word, lines 240-247 of
  \<^verbatim>\<open>refreshAccessToken\<close>: the token built from a response body \<open>data\<close> when
  \<^verbatim>\<open>Date.now()\<close> reads \<open>now\<close>.
\<close>

definition token_of_response :: "js_runtime \<Rightarrow> int \<Rightarrow> json \<Rightarrow> error + KimiToken" where
  "token_of_response rt now data =
     and_then (get (Some data) ''expires_in'') (\<lambda>ei.
     and_then (get (Some data) ''access_token'') (\<lambda>a.
     and_then (get (Some data) ''refresh_token'') (\<lambda>r.
     and_then (get (Some data) ''scope'') (\<lambda>sc.
     and_then (get (Some data) ''token_type'') (\<lambda>tt.
       Inr \<lparr>access_token = js_String_opt rt a,
            refresh_token = js_String_opt rt r,
            expires_at = js_add (seconds now) (ToNumber rt (Some (js_or ei (JNum 3600)))),
            scope = js_String rt (js_or sc (JStr ''kimi-code'')),
            token_type = js_String rt (js_or tt (JStr ''Bearer''))\<rparr>)))))"

text \<open>
  One turn of the loop of \<^verbatim>\<open>pollForToken\<close> after the request (lines 198-215): the
  turn throws, returns a token (\<open>Some\<close>), or falls through to the next turn (\<open>None\<close>).
\<close>

definition poll_attempt :: "js_runtime \<Rightarrow> int \<Rightarrow> fetch_result \<Rightarrow> error + KimiToken option" where
  "poll_attempt rt now resp =
     (case resp of
        FetchFailed \<Rightarrow> Inl FetchError
      | Response status None \<Rightarrow> Inl SyntaxError
      | Response status (Some data) \<Rightarrow>
          and_then (if status = 200
                    then and_then (get (Some data) ''access_token'') (\<lambda>a. Inr (truthy a))
                    else Inr False) (\<lambda>granted.
            if granted
            then and_then (token_of_response rt now data) (\<lambda>token. Inr (Some token))
            else
              and_then (get (Some data) ''error'') (\<lambda>er.
                if js_String rt (js_or er (JStr [])) = ''expired_token''
                then Inl (Error ''Device code expired. Please try again.'')
                else Inr None)))"

text \<open>Lines 181-183: \<^verbatim>\<open>maxAttempts\<close>, a number that may be \<^verbatim>\<open>NaN\<close> or infinite.\<close>

definition maxAttempts :: "DeviceAuthorization \<Rightarrow> number" where
  "maxAttempts auth =
     (case expires_in auth of
        None \<Rightarrow> Num 120
      | Some e \<Rightarrow>
          if truthy_num e then js_ceil (js_div e (interval auth)) else Num 120)"

text \<open>
  The loop of \<^verbatim>\<open>pollForToken\<close>, from turn \<open>i\<close> with the effects \<open>tr\<close> so far.
  \<open>server j\<close> is the outcome of the request of turn \<open>j\<close> and \<open>clock j\<close> the reading of
  \<^verbatim>\<open>Date.now()\<close> in that turn. The bound may be infinite, so the loop need not end: not
  returning is the value \<open>None\<close>.
\<close>

partial_function (option) poll_loop ::
  "js_runtime \<Rightarrow> (nat \<Rightarrow> fetch_result) \<Rightarrow> (nat \<Rightarrow> int) \<Rightarrow> DeviceAuthorization \<Rightarrow> number
   \<Rightarrow> nat \<Rightarrow> effect list \<Rightarrow> (effect list \<times> (error + KimiToken)) option" where
  "poll_loop rt server clock auth bound i tr =
     (if js_lt (Num (of_nat i)) bound
      then
        (case poll_attempt rt (clock i) (server i) of
           Inl e \<Rightarrow>
             Some (tr @ [Sleep (js_mul (interval auth) (Num 1000)),
                         PostDeviceGrant (device_code auth)], Inl e)
         | Inr (Some token) \<Rightarrow>
             Some (tr @ [Sleep (js_mul (interval auth) (Num 1000)),
                         PostDeviceGrant (device_code auth)], Inr token)
         | Inr None \<Rightarrow>
             poll_loop rt server clock auth bound (Suc i)
               (tr @ [Sleep (js_mul (interval auth) (Num 1000)),
                      PostDeviceGrant (device_code auth)]))
      else Some (tr, Inl (Error ''Login timed out. Please try again.'')))"

definition pollForToken ::
  "js_runtime \<Rightarrow> (nat \<Rightarrow> fetch_result) \<Rightarrow> (nat \<Rightarrow> int) \<Rightarrow> DeviceAuthorization
   \<Rightarrow> (effect list \<times> (error + KimiToken)) option" where
  "pollForToken rt server clock auth =
     poll_loop rt server clock auth (maxAttempts auth) 0 []"

text \<open>
  \<^verbatim>\<open>refreshAccessToken\<close>: one request, then an error for a status outside 200-299
  (\<^verbatim>\<open>response.ok\<close>), else the token. \<open>now\<close> is the reading of \<^verbatim>\<open>Date.now()\<close> on
  line 244.
\<close>

definition refreshAccessToken ::
  "js_runtime \<Rightarrow> int \<Rightarrow> fetch_result \<Rightarrow> json option \<Rightarrow> effect list \<times> (error + KimiToken)" where
  "refreshAccessToken rt now resp refreshToken =
     ([PostRefreshGrant (js_String_opt rt refreshToken)],
      (case resp of
         FetchFailed \<Rightarrow> Inl FetchError
       | Response status None \<Rightarrow> Inl SyntaxError
       | Response status (Some data) \<Rightarrow>
           if \<not> (200 \<le> status \<and> status \<le> 299)
           then
             and_then (get (Some data) ''error_description'') (\<lambda>d.
               Inl (Error (if truthy d then js_String_opt rt d
                           else ''Token refresh failed (''
                                @ number_to_string rt (of_nat status) @ '')'')))
           else token_of_response rt now data))"

text \<open>The classes of responses the claims speak of.\<close>

definition grants :: "fetch_result \<Rightarrow> bool" where
  "grants resp =
     (case resp of
        Response status (Some data) \<Rightarrow> status = 200 \<and> truthy (field data ''access_token'')
      | _ \<Rightarrow> False)"

definition pending :: "fetch_result \<Rightarrow> bool" where
  "pending resp =
     (case resp of
        Response status (Some data) \<Rightarrow>
          \<not> grants resp
          \<and> (field data ''error'' = Some (JStr ''authorization_pending'')
               \<or> field data ''error'' = Some (JStr ''slow_down''))
      | _ \<Rightarrow> False)"

definition expired :: "fetch_result \<Rightarrow> bool" where
  "expired resp =
     (case resp of
        Response status (Some data) \<Rightarrow>
          \<not> grants resp \<and> field data ''error'' = Some (JStr ''expired_token'')
      | _ \<Rightarrow> False)"

text \<open>
  A response after which the loop goes on: a JSON body other than \<^verbatim>\<open>null\<close> that
  neither grants a token nor carries the error code \<^verbatim>\<open>expired_token\<close>.
\<close>

definition keeps_polling :: "js_runtime \<Rightarrow> fetch_result \<Rightarrow> bool" where
  "keeps_polling rt resp =
     (case resp of
        Response status (Some data) \<Rightarrow>
          data \<noteq> JNull \<and> \<not> grants resp
          \<and> js_String rt (js_or (field data ''error'') (JStr [])) \<noteq> ''expired_token''
      | _ \<Rightarrow> False)"

text \<open>The effects of \<open>n\<close> turns of the loop: a wait, then a request, \<open>n\<close> times.\<close>

definition turns :: "DeviceAuthorization \<Rightarrow> nat \<Rightarrow> effect list" where
  "turns auth n =
     concat (replicate n [Sleep (js_mul (interval auth) (Num 1000)),
                          PostDeviceGrant (device_code auth)])"

text \<open>
  Device authorizations, responses, a server and a clock for closed examples.
  \<open>example_auth\<close> allows two attempts; \<open>zero_auth\<close> carries \<^verbatim>\<open>expires_in = 0\<close> and
  \<open>endless_auth\<close> carries \<^verbatim>\<open>expires_in = Infinity\<close>.
\<close>

definition example_auth :: DeviceAuthorization where
  "example_auth =
     \<lparr>user_code = ''ABCD'', device_code = ''dc'', verification_uri = ''https://auth'',
      verification_uri_complete = ''https://auth?user_code=ABCD'',
      expires_in = Some (Num 10), interval = Num 5\<rparr>"

definition zero_auth :: DeviceAuthorization where
  "zero_auth = example_auth\<lparr>expires_in := Some (Num 0)\<rparr>"

definition endless_auth :: DeviceAuthorization where
  "endless_auth = example_auth\<lparr>expires_in := Some PosInf\<rparr>"

definition pending_response :: fetch_result where
  "pending_response = Response 400 (Some (JObj [(''error'', JStr ''authorization_pending'')]))"

definition expired_response :: fetch_result where
  "expired_response = Response 400 (Some (JObj [(''error'', JStr ''expired_token'')]))"

definition grant_body :: json where
  "grant_body = JObj [(''access_token'', JStr ''at''), (''refresh_token'', JStr ''rt''),
                      (''expires_in'', JNum 900)]"

definition zero_body :: json where
  "zero_body = JObj [(''access_token'', JStr ''at''), (''refresh_token'', JStr ''rt''),
                     (''expires_in'', JNum 0)]"

definition always_pending :: "nat \<Rightarrow> fetch_result" where
  "always_pending i = pending_response"

definition always_expired :: "nat \<Rightarrow> fetch_result" where
  "always_expired i = expired_response"

definition pending_then_grant :: "nat \<Rightarrow> fetch_result" where
  "pending_then_grant i = (if i < 1 then pending_response else Response 200 (Some grant_body))"

definition pending_then_expired :: "nat \<Rightarrow> fetch_result" where
  "pending_then_expired i = (if i < 1 then pending_response else expired_response)"

definition example_clock :: "nat \<Rightarrow> int" where
  "example_clock i = 5000 * (int i + 1)"

section \<open>Refreshing credentials (CredentialReconciler)\<close>

text \<open>
  The credentials the host hands to and receives from the extension. The host's type
  says strings and a number; what \<open>refreshKimiCoderToken\<close> puts there from the
  companion file is whatever the file holds.
\<close>

record OAuthCredentials =
  refresh :: "json option"
  access :: "json option"
  expires :: number

text \<open>What \<^verbatim>\<open>JSON.stringify(token)\<close> writes for a token built by the device flow.\<close>

definition token_json :: "KimiToken \<Rightarrow> json" where
  "token_json token =
     JObj [(''access_token'', JStr (access_token token)),
           (''refresh_token'', JStr (refresh_token token)),
           (''expires_at'', number_json (expires_at token)),
           (''scope'', JStr (scope token)),
           (''token_type'', JStr (token_type token))]"

text \<open>
  \<^verbatim>\<open>saveKimiCliToken\<close>: the write, and the \<^verbatim>\<open>catch\<close> that swallows its failure.
\<close>

definition saveKimiCliToken :: "KimiToken \<Rightarrow> world \<Rightarrow> error + world" where
  "saveKimiCliToken token w =
     try_catch
       (if kimi_writable w then Inr (w\<lparr>kimi_file := Content (token_json token)\<rparr>)
        else Inl IOError)
       (\<lambda>e. Inr w)"

text \<open>\<^verbatim>\<open>a !== b\<close> where either side may be \<^verbatim>\<open>undefined\<close>.\<close>

definition strict_neq_opt :: "json option \<Rightarrow> json option \<Rightarrow> bool" where
  "strict_neq_opt a b =
     (case a of
        None \<Rightarrow> (case b of None \<Rightarrow> False | Some y \<Rightarrow> True)
      | Some x \<Rightarrow> (case b of None \<Rightarrow> True | Some y \<Rightarrow> strict_neq x y))"

text \<open>
  The test of lines 299-303 of \<^verbatim>\<open>refreshKimiCoderToken\<close>:
  \<^verbatim>\<open>diskToken && diskToken.access_token !== credentials.access
  && diskToken.expires_at > Date.now() / 1000 + 300\<close>.
\<close>

definition disk_preferred ::
  "js_runtime \<Rightarrow> int \<Rightarrow> json option \<Rightarrow> OAuthCredentials \<Rightarrow> error + bool" where
  "disk_preferred rt now diskToken credentials =
     (if \<not> truthy diskToken then Inr False
      else and_then (get diskToken ''access_token'') (\<lambda>a.
        if \<not> strict_neq_opt a (access credentials) then Inr False
        else and_then (get diskToken ''expires_at'') (\<lambda>ea.
          Inr (js_gt (ToNumber rt ea) (js_add (seconds now) (Num 300))))))"

text \<open>
  Lines 298-309: what \<^verbatim>\<open>refreshKimiCoderToken\<close> does before any request. \<open>Some c\<close>
  is the early return of the credentials \<open>c\<close> taken from the companion file.
\<close>

definition disk_credentials ::
  "js_runtime \<Rightarrow> int \<Rightarrow> OAuthCredentials \<Rightarrow> world \<Rightarrow> error + OAuthCredentials option" where
  "disk_credentials rt now credentials w =
     and_then (loadKimiCliToken (kimi_file w)) (\<lambda>diskToken.
     and_then (disk_preferred rt now diskToken credentials) (\<lambda>preferred.
       if preferred then
         and_then (get diskToken ''refresh_token'') (\<lambda>r.
         and_then (get diskToken ''access_token'') (\<lambda>a.
         and_then (get diskToken ''expires_at'') (\<lambda>ea.
           Inr (Some \<lparr>refresh = r, access = a,
                      expires = js_mul (ToNumber rt ea) (Num 1000)\<rparr>))))
       else Inr None))"






section \<open>The refresh scheduler (RefreshScheduler)\<close>

text \<open>
  The three handlers registered by the extension (lines 409-464) and the host's call of
  \<^verbatim>\<open>refreshKimiCoderToken\<close> are \<^verbatim>\<open>async\<close> functions on one event loop: each runs without
  interruption up to its \<^verbatim>\<open>await\<close> of the refresh request and resumes when the
  response arrives. The model is a machine whose steps are these uninterrupted pieces.
  Its state is the files, the environment variable \<^verbatim>\<open>KIMI_CODER_API_KEY\<close>, the variable
  \<^verbatim>\<open>refreshInterval\<close> (whether it holds a timer), the number of interval timers that are
  set and not cleared, and the refresh requests that were sent and not yet answered,
  each with the handler that sent it and the refresh token it carries. Notifications to
  the user interface are left out. A \<open>Tick\<close> is the timer's callback (lines 443-456);
  the model does not say how much time passes between ticks.
\<close>

datatype origin = FromSessionStart | FromTick | FromHost

record ext_state =
  machine :: world
  env_key :: "string option"
  refreshInterval :: bool
  timers :: nat
  outstanding :: "(origin \<times> json option) list"

datatype event =
    SessionStart int
  | AgentStart
  | Tick int
  | RefreshRequested int OAuthCredentials
  | Arrives nat fetch_result int
  | SessionShutdown

text \<open>
  Lines 444-447 of the timer's callback and 415-418 of the \<^verbatim>\<open>session_start\<close> handler:
  \<open>Some r\<close> when \<^verbatim>\<open>refreshAccessToken(token.refresh_token)\<close> is called, with \<open>r\<close> the
  refresh token.
\<close>

definition refresh_due :: "js_runtime \<Rightarrow> int \<Rightarrow> world \<Rightarrow> error + json option option" where
  "refresh_due rt now w =
     and_then (loadKimiCliToken (kimi_file w)) (\<lambda>token.
       if \<not> truthy token then Inr None
       else and_then (get token ''refresh_token'') (\<lambda>r.
         if \<not> truthy r then Inr None
         else and_then (get token ''expires_at'') (\<lambda>ea.
           if js_lt (js_sub (ToNumber rt ea) (seconds now)) (Num 300)
           then Inr (Some r) else Inr None)))"

text \<open>A handler up to its \<^verbatim>\<open>await\<close>: the request is sent if a refresh is due.\<close>

definition start_refresh :: "js_runtime \<Rightarrow> origin \<Rightarrow> int \<Rightarrow> ext_state \<Rightarrow> ext_state" where
  "start_refresh rt orig now s =
     (case refresh_due rt now (machine s) of
        Inr (Some r) \<Rightarrow> s\<lparr>outstanding := outstanding s @ [(orig, r)]\<rparr>
      | _ \<Rightarrow> s)"

text \<open>
  \<^verbatim>\<open>refreshKimiCoderToken\<close> up to its \<^verbatim>\<open>await\<close>: the request is sent unless the
  companion file holds a fresher token.
\<close>

definition start_host_refresh :: "js_runtime \<Rightarrow> int \<Rightarrow> OAuthCredentials \<Rightarrow> ext_state \<Rightarrow> ext_state" where
  "start_host_refresh rt now credentials s =
     (case disk_credentials rt now credentials (machine s) of
        Inr None \<Rightarrow> s\<lparr>outstanding := outstanding s @ [(FromHost, refresh credentials)]\<rparr>
      | _ \<Rightarrow> s)"

text \<open>
  The rest of a handler, run when the response to request \<open>i\<close> arrives: lines 421-422
  and 450-451 (a failure is caught), lines 314-320 for the host's call. \<open>step\<close> calls
  it only for an \<open>i\<close> below the number of outstanding requests.
\<close>

definition finish_refresh ::
  "js_runtime \<Rightarrow> nat \<Rightarrow> fetch_result \<Rightarrow> int \<Rightarrow> ext_state \<Rightarrow> ext_state" where
  "finish_refresh rt i resp now s =
     (let orig = fst (outstanding s ! i);
          r = snd (outstanding s ! i);
          s' = s\<lparr>outstanding := take i (outstanding s) @ drop (Suc i) (outstanding s)\<rparr>
      in case snd (refreshAccessToken rt now resp r) of
           Inl e \<Rightarrow> s'
         | Inr refreshed \<Rightarrow>
             (case saveKimiCliToken refreshed (machine s') of
                Inl e \<Rightarrow> s'
              | Inr w' \<Rightarrow>
                  if orig = FromHost then s'\<lparr>machine := w'\<rparr>
                  else s'\<lparr>machine := w', env_key := Some (access_token refreshed)\<rparr>))"

text \<open>
  One step. \<open>AgentStart\<close> is the \<^verbatim>\<open>agent_start\<close> handler (lines 441-457) and
  \<open>SessionShutdown\<close> the \<^verbatim>\<open>session_shutdown\<close> handler (lines 459-464). A tick needs a
  timer that is set, and an arrival a request that is outstanding.
\<close>

fun step :: "js_runtime \<Rightarrow> event \<Rightarrow> ext_state \<Rightarrow> ext_state" where
  "step rt (SessionStart now) s = start_refresh rt FromSessionStart now s"
| "step rt AgentStart s =
     (if refreshInterval s then s
      else s\<lparr>refreshInterval := True, timers := Suc (timers s)\<rparr>)"
| "step rt (Tick now) s =
     (if timers s = 0 then s else start_refresh rt FromTick now s)"
| "step rt (RefreshRequested now credentials) s = start_host_refresh rt now credentials s"
| "step rt (Arrives i resp now) s =
     (if i < length (outstanding s) then finish_refresh rt i resp now s else s)"
| "step rt SessionShutdown s =
     (if refreshInterval s then s\<lparr>refreshInterval := False, timers := timers s - 1\<rparr>
      else s)"




section \<open>Properties of the token store\<close>

lemma get_Some_field: "v \<noteq> JNull \<Longrightarrow> get (Some v) k = Inr (field v k)"
  by (cases v) (simp_all add: field_def)


lemma field_truthy_obj: "truthy (field v k) \<Longrightarrow> \<exists>al. v = JObj al"
  by (cases v) (simp_all add: field_def)

lemma loadKimiCliToken_cases:
  "loadKimiCliToken f =
     (case f of
        Content data \<Rightarrow>
          if truthy (field data ''access_token'') \<and> truthy (field data ''refresh_token'')
          then Inr (Some data) else Inr None
      | _ \<Rightarrow> Inr None)"
proof (cases f)
  case (Content data)
  show ?thesis
  proof (cases "data = JNull")
    case True
    with Content show ?thesis
      by (simp add: loadKimiCliToken_def loadKimiCliToken_body_def try_catch_def
          and_then_def field_def)
  next
    case False
    with Content show ?thesis
      by (simp add: loadKimiCliToken_def loadKimiCliToken_body_def try_catch_def
          and_then_def get_Some_field)
  qed
qed (simp_all add: loadKimiCliToken_def loadKimiCliToken_body_def try_catch_def)



text \<open>
  Claim C10. The presence criterion of \<open>loadKimiCliToken\<close> is exactly this: the file
  parses and the parsed value has a truthy \<^verbatim>\<open>access_token\<close> and a truthy
  \<^verbatim>\<open>refresh_token\<close>. So an empty string in either field gives absent, and a record with
  the two fields truthy and no \<^verbatim>\<open>expires_at\<close>, \<^verbatim>\<open>scope\<close> or \<^verbatim>\<open>token_type\<close> is
  returned as a present token.
\<close>

theorem loadKimiCliToken_presence:
  "(loadKimiCliToken f = Inr (Some data)) =
     (f = Content data \<and> truthy (field data ''access_token'')
      \<and> truthy (field data ''refresh_token''))
   \<and> loadKimiCliToken (Content (JObj ((''access_token'', JStr []) # rest))) = Inr None
   \<and> loadKimiCliToken (Content (JObj ((''refresh_token'', JStr []) # rest))) = Inr None
   \<and> loadKimiCliToken
        (Content (JObj [(''access_token'', JStr (c # cs)), (''refresh_token'', JStr (d # ds))]))
      = Inr (Some (JObj [(''access_token'', JStr (c # cs)), (''refresh_token'', JStr (d # ds))]))"
proof -
  have crit: "(loadKimiCliToken f = Inr (Some data)) =
     (f = Content data \<and> truthy (field data ''access_token'')
      \<and> truthy (field data ''refresh_token''))"
    by (cases f) (auto simp add: loadKimiCliToken_cases)
  show ?thesis
    using crit by (simp add: loadKimiCliToken_cases field_def)
qed

section \<open>Properties of the broker store\<close>



















section \<open>Properties of the device flow\<close>

lemma token_of_response_obj:
  "data \<noteq> JNull \<Longrightarrow> token_of_response rt now data =
     Inr \<lparr>access_token = js_String_opt rt (field data ''access_token''),
          refresh_token = js_String_opt rt (field data ''refresh_token''),
          expires_at = js_add (seconds now)
             (ToNumber rt (Some (js_or (field data ''expires_in'') (JNum 3600)))),
          scope = js_String rt (js_or (field data ''scope'') (JStr ''kimi-code'')),
          token_type = js_String rt (js_or (field data ''token_type'') (JStr ''Bearer''))\<rparr>"
  by (simp add: token_of_response_def and_then_def get_Some_field)

lemma field_JNull: "field JNull k = None"
  by (simp add: field_def)

lemma poll_attempt_keeps: "keeps_polling rt r \<Longrightarrow> poll_attempt rt now r = Inr None"
  by (auto simp add: keeps_polling_def poll_attempt_def grants_def and_then_def get_Some_field
      split: fetch_result.splits option.splits)

lemma pending_keeps: "pending r \<Longrightarrow> keeps_polling rt r"
  by (auto simp add: pending_def keeps_polling_def js_or_def field_JNull
      split: fetch_result.splits option.splits)

lemma get_of_field: "field d k = Some v \<Longrightarrow> get (Some d) k' = Inr (field d k')"
  by (rule get_Some_field) (auto simp add: field_JNull)

lemma poll_attempt_expired:
  assumes "expired r"
  shows "poll_attempt rt now r = Inl (Error ''Device code expired. Please try again.'')"
proof -
  from assms obtain status data where r: "r = Response status (Some data)"
    and ng: "\<not> grants r" and er: "field data ''error'' = Some (JStr ''expired_token'')"
    by (auto simp add: expired_def split: fetch_result.splits option.splits)
  have g: "get (Some data) k = Inr (field data k)" for k
    using er by (rule get_of_field)
  from ng r have "status \<noteq> 200 \<or> \<not> truthy (field data ''access_token'')"
    by (simp add: grants_def)
  then show ?thesis
    using r er by (auto simp add: poll_attempt_def and_then_def g js_or_def)
qed

lemma poll_attempt_grants:
  assumes "r = Response 200 (Some data)" and "truthy (field data ''access_token'')"
  shows "\<exists>tok. token_of_response rt now data = Inr tok \<and> poll_attempt rt now r = Inr (Some tok)"
proof -
  from assms(2) have nn: "data \<noteq> JNull" by (auto simp add: field_JNull)
  then show ?thesis using assms
    by (simp add: poll_attempt_def and_then_def get_Some_field token_of_response_obj)
qed

lemma js_lt_of_nat_mono: "js_lt (Num (of_nat n)) b \<Longrightarrow> j \<le> n \<Longrightarrow> js_lt (Num (of_nat j)) b"
  by (cases b) (auto simp add: order.strict_trans1)

lemma turns_Suc: "turns auth (Suc n) = turns auth n @ [Sleep (js_mul (interval auth) (Num 1000)), PostDeviceGrant (device_code auth)]"
  unfolding turns_def by (induction n) simp_all

lemma turns_0: "turns auth 0 = []"
  by (simp add: turns_def)

lemma requests_turns: "requests (turns auth n) = n"
  by (induction n) (simp_all add: turns_Suc requests_def, simp add: turns_def)

lemma poll_loop_skip:
  assumes below: "js_lt (Num (of_nat (i + d))) b"
    and keep: "\<forall>j. i \<le> j \<and> j < i + d \<longrightarrow> poll_attempt rt (clock j) (server j) = Inr None"
  shows "poll_loop rt server clock auth b i tr =
         poll_loop rt server clock auth b (i + d) (tr @ turns auth d)"
  using assms
proof (induction d arbitrary: i tr)
  case 0
  then show ?case by (simp add: turns_0)
next
  case (Suc d)
  have b_i: "js_lt (Num (of_nat i)) b"
    using Suc.prems(1) js_lt_of_nat_mono by (metis le_add1)
  have k_i: "poll_attempt rt (clock i) (server i) = Inr None"
    using Suc.prems(2) by simp
  have step: "poll_loop rt server clock auth b i tr =
      poll_loop rt server clock auth b (Suc i)
        (tr @ [Sleep (js_mul (interval auth) (Num 1000)), PostDeviceGrant (device_code auth)])"
    by (subst poll_loop.simps) (simp add: b_i k_i)
  have "poll_loop rt server clock auth b (Suc i)
        (tr @ [Sleep (js_mul (interval auth) (Num 1000)), PostDeviceGrant (device_code auth)]) =
      poll_loop rt server clock auth b (Suc i + d)
        ((tr @ [Sleep (js_mul (interval auth) (Num 1000)), PostDeviceGrant (device_code auth)]) @ turns auth d)"
    using Suc.prems by (intro Suc.IH) auto
  moreover have "(tr @ [Sleep (js_mul (interval auth) (Num 1000)), PostDeviceGrant (device_code auth)]) @ turns auth d
      = tr @ turns auth (Suc d)"
    unfolding turns_def by simp
  ultimately show ?case using step by simp
qed


lemma poll_loop_stop:
  assumes "js_lt (Num (of_nat i)) b"
  shows "poll_attempt rt (clock i) (server i) = Inl e \<Longrightarrow>
           poll_loop rt server clock auth b i tr = Some (tr @ turns auth 1, Inl e)"
    and "poll_attempt rt (clock i) (server i) = Inr (Some token) \<Longrightarrow>
           poll_loop rt server clock auth b i tr = Some (tr @ turns auth 1, Inr token)"
  using assms by (subst poll_loop.simps, simp add: turns_def)+


lemma turns_add: "turns auth (m + n) = turns auth m @ turns auth n"
  by (simp add: turns_def replicate_add)

text \<open>The run that ends at turn n with a throw or a token, after n turns that went on.\<close>

lemma pollForToken_run:
  assumes below: "js_lt (Num (of_nat n)) (maxAttempts auth)"
    and keep: "\<forall>i<n. keeps_polling rt (server i)"
  shows "poll_attempt rt (clock n) (server n) = Inl e \<Longrightarrow>
           pollForToken rt server clock auth = Some (turns auth (Suc n), Inl e)"
    and "poll_attempt rt (clock n) (server n) = Inr (Some token) \<Longrightarrow>
           pollForToken rt server clock auth = Some (turns auth (Suc n), Inr token)"
proof -
  have skip: "poll_loop rt server clock auth (maxAttempts auth) 0 [] =
      poll_loop rt server clock auth (maxAttempts auth) (0 + n) ([] @ turns auth n)"
    using below keep by (intro poll_loop_skip) (auto simp add: poll_attempt_keeps)
  have t: "turns auth (Suc n) = turns auth n @ turns auth 1"
    using turns_add [of auth n 1] by simp
  show "poll_attempt rt (clock n) (server n) = Inl e \<Longrightarrow>
           pollForToken rt server clock auth = Some (turns auth (Suc n), Inl e)"
    using skip poll_loop_stop(1) [OF below] by (simp add: pollForToken_def t)
  show "poll_attempt rt (clock n) (server n) = Inr (Some token) \<Longrightarrow>
           pollForToken rt server clock auth = Some (turns auth (Suc n), Inr token)"
    using skip poll_loop_stop(2) [OF below] by (simp add: pollForToken_def t)
qed






lemmas poll_eval = maxAttempts_def example_auth_def zero_auth_def endless_auth_def
  always_pending_def always_expired_def pending_response_def
  expired_response_def grant_body_def zero_body_def pending_then_grant_def example_clock_def
  pending_def expired_def grants_def keeps_polling_def field_def js_or_def

text \<open>
  Claim C2. Let \<open>N\<close> be smaller than the attempt bound. If the token endpoint answers
  \<^verbatim>\<open>authorization_pending\<close> or \<^verbatim>\<open>slow_down\<close> (a body with that error code that grants
  no token) to the first \<open>N\<close> requests and answers request \<open>N + 1\<close> with status 200 and
  a truthy \<^verbatim>\<open>access_token\<close>, then \<open>pollForToken\<close> returns after exactly \<open>N + 1\<close>
  requests, each preceded by a wait of \<^verbatim>\<open>interval * 1000\<close> milliseconds, and its result
  is the token built from the body of the last response: no pending answer is a failure.
\<close>

theorem pollForToken_pending_then_token:
  assumes below: "js_lt (Num (of_nat N)) (maxAttempts auth)"
    and pend: "\<forall>i<N. pending (server i)"
    and last: "server N = Response 200 (Some data)"
    and granted: "truthy (field data ''access_token'')"
  shows "\<exists>token. pollForToken rt server clock auth = Some (turns auth (Suc N), Inr token)
           \<and> requests (turns auth (Suc N)) = Suc N
           \<and> token_of_response rt (clock N) data = Inr token
           \<and> access_token token = js_String_opt rt (field data ''access_token'')
           \<and> refresh_token token = js_String_opt rt (field data ''refresh_token'')"
proof -
  from granted have nn: "data \<noteq> JNull" by (auto simp add: field_JNull)
  obtain token where tk: "token_of_response rt (clock N) data = Inr token"
    and at: "poll_attempt rt (clock N) (server N) = Inr (Some token)"
    using poll_attempt_grants [OF last granted] by blast
  have keep: "\<forall>i<N. keeps_polling rt (server i)"
    using pend pending_keeps by blast
  have "pollForToken rt server clock auth = Some (turns auth (Suc N), Inr token)"
    using pollForToken_run(2) [where server = server and clock = clock, OF below keep at] .
  moreover have "access_token token = js_String_opt rt (field data ''access_token'')"
    and "refresh_token token = js_String_opt rt (field data ''refresh_token'')"
    using tk by (auto simp add: token_of_response_obj [OF nn])
  ultimately show ?thesis using tk by (simp add: requests_turns)
qed

theorem pollForToken_pending_then_token_witness:
  "\<exists>token. pollForToken example_runtime pending_then_grant example_clock example_auth
        = Some (turns example_auth 2, Inr token)
      \<and> turns example_auth 2 =
          [Sleep (Num 5000), PostDeviceGrant ''dc'', Sleep (Num 5000), PostDeviceGrant ''dc'']
      \<and> requests (turns example_auth 2) = 2
      \<and> token_of_response example_runtime 10000 grant_body = Inr token
      \<and> access_token token = ''at'' \<and> refresh_token token = ''rt''"
proof -
  have b: "js_lt (Num (of_nat 1)) (maxAttempts example_auth)"
    by (simp add: poll_eval)
  have p: "\<forall>i<1. pending (pending_then_grant i)"
    by (simp add: poll_eval)
  have l: "pending_then_grant 1 = Response 200 (Some grant_body)"
    by (simp add: poll_eval)
  have g: "truthy (field grant_body ''access_token'')"
    by (simp add: poll_eval)
  have t: "turns example_auth 2 =
      [Sleep (Num 5000), PostDeviceGrant ''dc'', Sleep (Num 5000), PostDeviceGrant ''dc'']"
    by (simp add: turns_def example_auth_def numeral_2_eq_2)
  from pollForToken_pending_then_token [OF b p l g, of example_runtime example_clock] t
  show ?thesis
    by (simp add: js_String_opt_def field_def grant_body_def example_clock_def numeral_2_eq_2)
qed

text \<open>
  Claim C4. If the response to request \<open>k + 1\<close> carries the error code
  \<^verbatim>\<open>expired_token\<close> (and grants no token), that request is below the attempt bound and
  the loop went on after each earlier response, then \<open>pollForToken\<close> throws
  \<^verbatim>\<open>Device code expired. Please try again.\<close> after exactly \<open>k + 1\<close> requests. With
  \<open>k = 0\<close>: an \<^verbatim>\<open>expired_token\<close> in the very first response fails at once, after one
  request.
\<close>

theorem pollForToken_expired_token:
  assumes below: "js_lt (Num (of_nat k)) (maxAttempts auth)"
    and keep: "\<forall>i<k. keeps_polling rt (server i)"
    and ex: "expired (server k)"
  shows "pollForToken rt server clock auth =
           Some (turns auth (Suc k), Inl (Error ''Device code expired. Please try again.''))
         \<and> requests (turns auth (Suc k)) = Suc k"
  using pollForToken_run(1) [where server = server and clock = clock, OF below keep]
    poll_attempt_expired [OF ex]
  by (simp add: requests_turns)

theorem pollForToken_expired_token_witness:
  "pollForToken example_runtime always_expired example_clock example_auth =
     Some (turns example_auth 1, Inl (Error ''Device code expired. Please try again.''))
   \<and> requests (turns example_auth 1) = 1
   \<and> pollForToken example_runtime pending_then_expired example_clock example_auth =
     Some (turns example_auth 2, Inl (Error ''Device code expired. Please try again.''))
   \<and> requests (turns example_auth 2) = 2"
proof -
  have b0: "js_lt (Num (of_nat 0)) (maxAttempts example_auth)"
    and b1: "js_lt (Num (of_nat 1)) (maxAttempts example_auth)"
    by (simp_all add: poll_eval)
  have k0: "\<forall>i<0. keeps_polling example_runtime (always_expired i)"
    by simp
  have k1: "\<forall>i<1. keeps_polling example_runtime (pending_then_expired i)"
    by (simp add: poll_eval pending_then_expired_def)
  have e0: "expired (always_expired 0)"
    and e1: "expired (pending_then_expired 1)"
    by (simp_all add: poll_eval pending_then_expired_def)
  from pollForToken_expired_token
         [of 0 example_auth example_runtime always_expired, OF b0 k0 e0]
       pollForToken_expired_token
         [of 1 example_auth example_runtime pending_then_expired, OF b1 k1 e1]
  show ?thesis by (simp add: numeral_2_eq_2)
qed











section \<open>Properties of the refresh operation\<close>










section \<open>Properties of the refresh scheduler\<close>












end
